theory Spec2Isabelle
  imports Main "HOL-Library.AList"
begin

section \<open>Loosely typed documents\<close>

text \<open>
  The pipeline works on the values that \<^verbatim>\<open>json.load\<close> yields: \<^verbatim>\<open>None\<close>, booleans,
  integers, floats, strings, lists and string-keyed dictionaries. A dictionary is an
  association list in insertion order; a lookup takes the first entry of a key, and a
  document that comes from the parser has no key twice.

  A Python string is a sequence of code points. The model covers the code points
  U+0000 to U+00FF: a \<^typ>\<open>char\<close> is the code point of that number.

  Floats are kept abstract: the pipeline never computes with them, it only hands them
  to Python's conversions \<^verbatim>\<open>int\<close>, \<^verbatim>\<open>float\<close>, \<^verbatim>\<open>str\<close> and \<^verbatim>\<open>bool\<close>.
\<close>

typedecl pyfloat

datatype json =
    JNull
  | JBool bool
  | JInt int
  | JFloat pyfloat
  | JStr string
  | JList "json list"
  | JDict "(string \<times> json) list"

datatype error = TypeError | ValueError | AttributeError | OverflowError

section \<open>Python string primitives (code points below 256)\<close>

definition isspace :: "char \<Rightarrow> bool" where
  \<comment> \<open>\<^verbatim>\<open>str.isspace\<close>: TAB, LF, VT, FF, CR, FS, GS, RS, US, SPACE, NEL, NBSP\<close>
  "isspace c \<longleftrightarrow> c \<in> set [CHR 0x09, CHR 0x0A, CHR 0x0B, CHR 0x0C, CHR 0x0D,
      CHR 0x1C, CHR 0x1D, CHR 0x1E, CHR 0x1F, CHR 0x20, CHR 0x85, CHR 0xA0]"

definition isdecimal :: "char \<Rightarrow> bool" where
  \<comment> \<open>the characters \<^verbatim>\<open>int\<close> and the regular expression class \<^verbatim>\<open>\d\<close> accept\<close>
  "isdecimal c \<longleftrightarrow> c \<in> set ''0123456789''"

definition isdigit_char :: "char \<Rightarrow> bool" where
  \<comment> \<open>\<^verbatim>\<open>str.isdigit\<close> on one character: also superscript two, three and one\<close>
  "isdigit_char c \<longleftrightarrow> isdecimal c \<or> c \<in> set [CHR 0xB2, CHR 0xB3, CHR 0xB9]"

definition isdigit :: "string \<Rightarrow> bool" where
  "isdigit s \<longleftrightarrow> s \<noteq> [] \<and> list_all isdigit_char s"

definition strip :: "string \<Rightarrow> string" where
  "strip s = rev (dropWhile isspace (rev (dropWhile isspace s)))"

fun split_ws_acc :: "string \<Rightarrow> string \<Rightarrow> string list" where
  "split_ws_acc cur [] = (if cur = [] then [] else [cur])"
| "split_ws_acc cur (c # cs) =
     (if isspace c then (if cur = [] then split_ws_acc [] cs else cur # split_ws_acc [] cs)
      else split_ws_acc (cur @ [c]) cs)"

definition split_ws :: "string \<Rightarrow> string list" where
  \<comment> \<open>\<^verbatim>\<open>s.split()\<close>: the maximal runs of non-space characters\<close>
  "split_ws s = split_ws_acc [] s"

fun split_on_acc :: "char \<Rightarrow> string \<Rightarrow> string \<Rightarrow> string list" where
  "split_on_acc d cur [] = [cur]"
| "split_on_acc d cur (c # cs) =
     (if c = d then cur # split_on_acc d [] cs else split_on_acc d (cur @ [c]) cs)"

definition split_on :: "char \<Rightarrow> string \<Rightarrow> string list" where
  \<comment> \<open>\<^verbatim>\<open>s.split(d)\<close> for a one-character separator\<close>
  "split_on d s = split_on_acc d [] s"

fun join :: "string \<Rightarrow> string list \<Rightarrow> string" where
  "join sep [] = []"
| "join sep [x] = x"
| "join sep (x # y # ys) = x @ sep @ join sep (y # ys)"

definition digit_val :: "char \<Rightarrow> int" where
  \<comment> \<open>the position of a decimal digit in the digit alphabet\<close>
  "digit_val c = int (length (takeWhile (\<lambda>d. d \<noteq> c) ''0123456789''))"

fun int_body_ok :: "string \<Rightarrow> bool" where
  \<comment> \<open>decimal digits, single underscores allowed between two digits\<close>
  "int_body_ok [] = False"
| "int_body_ok [c] = isdecimal c"
| "int_body_ok (c # d # cs) =
     (isdecimal c \<and> (if d = CHR ''_'' then int_body_ok cs else int_body_ok (d # cs)))"

definition int_body_val :: "string \<Rightarrow> int" where
  "int_body_val s = foldl (\<lambda>a c. 10 * a + digit_val c) 0 (filter (\<lambda>c. c \<noteq> CHR ''_'') s)"

definition isspace_int :: "char \<Rightarrow> bool" where
  \<comment> \<open>the blanks that \<^verbatim>\<open>int\<close> skips around a literal: TAB, LF, VT, FF, CR, SPACE, NEL, NBSP\<close>
  "isspace_int c \<longleftrightarrow> c \<in> set [CHR 0x09, CHR 0x0A, CHR 0x0B, CHR 0x0C, CHR 0x0D,
      CHR 0x20, CHR 0x85, CHR 0xA0]"

definition max_str_digits :: nat where
  \<comment> \<open>the default of \<^verbatim>\<open>sys.get_int_max_str_digits()\<close>\<close>
  "max_str_digits = 4300"

definition int_literal :: "string \<Rightarrow> int option" where
  \<comment> \<open>an unsigned literal: well-formed and of at most \<open>max_str_digits\<close> digits\<close>
  "int_literal body =
     (if int_body_ok body \<and> length (filter isdecimal body) \<le> max_str_digits
      then Some (int_body_val body) else None)"

definition int_of_str :: "string \<Rightarrow> int option" where
  \<comment> \<open>\<^verbatim>\<open>int(s)\<close> in base 10; \<^const>\<open>None\<close> is \<^verbatim>\<open>ValueError\<close>\<close>
  "int_of_str s =
     (case rev (dropWhile isspace_int (rev (dropWhile isspace_int s))) of
        [] \<Rightarrow> None
      | c # r \<Rightarrow>
          if c = CHR ''-'' then map_option uminus (int_literal r)
          else if c = CHR ''+'' then int_literal r
          else int_literal (c # r))"

definition match_feet_inches :: "string \<Rightarrow> (string \<times> string) option" where
  \<comment> \<open>\<^verbatim>\<open>re.match(r"(\d+)['\"](\d+)", s)\<close>: the two groups of a match at the start\<close>
  "match_feet_inches s =
     (let feet = takeWhile isdecimal s in
      case dropWhile isdecimal s of
        [] \<Rightarrow> None
      | q # r \<Rightarrow>
          if feet \<noteq> [] \<and> (q = CHR 0x27 \<or> q = CHR 0x22) \<and> takeWhile isdecimal r \<noteq> []
          then Some (feet, takeWhile isdecimal r) else None)"

section \<open>Field Accessor (utils/helpers.py)\<close>

fun safe_get :: "json \<Rightarrow> string list \<Rightarrow> json \<Rightarrow> json" where
  "safe_get current [] dflt = (if current \<noteq> JNull then current else dflt)"
| "safe_get current (key # keys) dflt =
     (case current of
        JDict kvs \<Rightarrow>
          (case map_of kvs key of
             Some v \<Rightarrow> safe_get v keys dflt
           | None \<Rightarrow> dflt)
      | _ \<Rightarrow> dflt)"

text \<open>
  The value stored at a key path, as the contract of the Field Accessor words it: there
  is none when a segment is absent or the value reached is not a mapping.
\<close>

fun path_value :: "json \<Rightarrow> string list \<Rightarrow> json option" where
  "path_value d [] = Some d"
| "path_value (JDict kvs) (k # ks) =
     (case map_of kvs k of Some v \<Rightarrow> path_value v ks | None \<Rightarrow> None)"
| "path_value _ (k # ks) = None"

fun is_int :: "json \<Rightarrow> bool" where
  \<comment> \<open>\<^verbatim>\<open>isinstance(v, int)\<close>; \<^verbatim>\<open>bool\<close> is a subclass of \<^verbatim>\<open>int\<close>\<close>
  "is_int (JInt _) = True"
| "is_int (JBool _) = True"
| "is_int _ = False"

definition height_of_parts :: "string \<Rightarrow> string \<Rightarrow> json" where
  \<comment> \<open>the body of both \<^verbatim>\<open>try\<close> blocks: \<^verbatim>\<open>ValueError\<close> is caught and gives \<^verbatim>\<open>None\<close>\<close>
  "height_of_parts f i =
     (case int_of_str f of
        None \<Rightarrow> JNull
      | Some feet \<Rightarrow>
          (case int_of_str i of
             None \<Rightarrow> JNull
           | Some inches \<Rightarrow> JInt (feet * 12 + inches)))"

definition height_quotes :: "string \<Rightarrow> json" where
  "height_quotes h =
     (if CHR 0x27 \<in> set h \<or> CHR 0x22 \<in> set h then
        (case match_feet_inches h of
           Some (f, i) \<Rightarrow> height_of_parts f i
         | None \<Rightarrow> JNull)
      else JNull)"

definition height_of_string :: "string \<Rightarrow> error + json" where
  "height_of_string s =
     (let h = strip s in
      if isdigit h then
        (case int_of_str h of Some n \<Rightarrow> Inr (JInt n) | None \<Rightarrow> Inl ValueError)
      else if CHR ''-'' \<in> set h then
        (case split_on CHR ''-'' h of
           [f, i] \<Rightarrow> Inr (height_of_parts (strip f) (strip i))
         | _ \<Rightarrow> Inr (height_quotes h))
      else Inr (height_quotes h))"

fun convert_height_to_inches :: "json \<Rightarrow> error + json" where
  "convert_height_to_inches JNull = Inr JNull"
| "convert_height_to_inches (JInt n) = Inr (JInt n)"
| "convert_height_to_inches (JBool b) = Inr (JBool b)"
| "convert_height_to_inches (JStr s) = height_of_string s"
| "convert_height_to_inches _ = Inr JNull"

section \<open>Python's conversions\<close>

text \<open>
  The conversions of the Python runtime that the helpers call are parameters of the
  model: \<^verbatim>\<open>str(v)\<close> of a value that is not a string, \<^verbatim>\<open>float(v)\<close>, \<^verbatim>\<open>int(f)\<close> and
  \<^verbatim>\<open>bool(f)\<close> of a float, and whether \<^verbatim>\<open>uuid.UUID(s)\<close> accepts a string. Every theorem
  holds for each behaviour of them. A conversion that raises gives \<open>Inl\<close>.
\<close>

record builtins =
  py_str :: "json \<Rightarrow> string"
  py_float :: "json \<Rightarrow> error + pyfloat"
  float_int :: "pyfloat \<Rightarrow> error + int"
  float_bool :: "pyfloat \<Rightarrow> bool"
  is_uuid :: "string \<Rightarrow> bool"

fun truthy :: "builtins \<Rightarrow> json \<Rightarrow> bool" where
  "truthy B JNull = False"
| "truthy B (JBool b) = b"
| "truthy B (JInt n) = (n \<noteq> 0)"
| "truthy B (JFloat f) = float_bool B f"
| "truthy B (JStr s) = (s \<noteq> [])"
| "truthy B (JList xs) = (xs \<noteq> [])"
| "truthy B (JDict kvs) = (kvs \<noteq> [])"

definition py_or :: "builtins \<Rightarrow> json \<Rightarrow> json \<Rightarrow> json" where
  "py_or B a b = (if truthy B a then a else b)"

fun py_iter :: "json \<Rightarrow> error + json list" where
  \<comment> \<open>what \<^verbatim>\<open>for x in v\<close> runs through\<close>
  "py_iter (JList xs) = Inr xs"
| "py_iter (JDict kvs) = Inr (map (\<lambda>kv. JStr (fst kv)) kvs)"
| "py_iter (JStr s) = Inr (map (\<lambda>c. JStr [c]) s)"
| "py_iter _ = Inl TypeError"

fun py_items :: "json \<Rightarrow> error + (string \<times> json) list" where
  \<comment> \<open>\<^verbatim>\<open>v.items()\<close>\<close>
  "py_items (JDict kvs) = Inr kvs"
| "py_items _ = Inl AttributeError"

fun py_get :: "json \<Rightarrow> string \<Rightarrow> error + json" where
  \<comment> \<open>\<^verbatim>\<open>v.get(k)\<close>\<close>
  "py_get (JDict kvs) k = Inr (case map_of kvs k of Some v \<Rightarrow> v | None \<Rightarrow> JNull)"
| "py_get _ k = Inl AttributeError"

fun is_dict :: "json \<Rightarrow> bool" where
  "is_dict (JDict _) = True"
| "is_dict _ = False"

definition ebind :: "error + 'a \<Rightarrow> ('a \<Rightarrow> error + 'b) \<Rightarrow> error + 'b" where
  "ebind m f = (case m of Inl e \<Rightarrow> Inl e | Inr x \<Rightarrow> f x)"

fun for_each :: "('a \<Rightarrow> 's \<Rightarrow> error + 's) \<Rightarrow> 'a list \<Rightarrow> 's \<Rightarrow> error + 's" where
  "for_each f [] s = Inr s"
| "for_each f (x # xs) s = (case f x s of Inl e \<Rightarrow> Inl e | Inr s' \<Rightarrow> for_each f xs s')"

fun collect :: "(string \<times> (error + json)) list \<Rightarrow> error + (string \<times> json) list" where
  "collect [] = Inr []"
| "collect ((k, Inl e) # fs) = Inl e"
| "collect ((k, Inr v) # fs) = (case collect fs of Inl e \<Rightarrow> Inl e | Inr kvs \<Rightarrow> Inr ((k, v) # kvs))"

definition mk_record :: "(string \<times> (error + json)) list \<Rightarrow> error + json" where
  \<comment> \<open>a dictionary display: the values are evaluated in order, the first raise wins\<close>
  "mk_record fs = (case collect fs of Inl e \<Rightarrow> Inl e | Inr kvs \<Rightarrow> Inr (JDict kvs))"

fun get_item :: "json \<Rightarrow> string \<Rightarrow> json" where
  \<comment> \<open>\<^verbatim>\<open>r[k]\<close> on a record of a table; each record there is built with the key\<close>
  "get_item (JDict kvs) k = (case map_of kvs k of Some v \<Rightarrow> v | None \<Rightarrow> JNull)"
| "get_item _ k = JNull"

definition dict_get :: "('k \<times> json) list \<Rightarrow> 'k \<Rightarrow> json" where
  \<comment> \<open>\<^verbatim>\<open>m.get(k)\<close> on an identity map\<close>
  "dict_get m k = (case map_of m k of Some v \<Rightarrow> v | None \<Rightarrow> JNull)"

section \<open>Coercions (utils/helpers.py)\<close>

definition normalize_string :: "builtins \<Rightarrow> json \<Rightarrow> json" where
  "normalize_string B v =
     (case v of
        JNull \<Rightarrow> JNull
      | JStr s \<Rightarrow> (if strip s \<noteq> [] then JStr (strip s) else JNull)
      | _ \<Rightarrow> (if strip (py_str B v) \<noteq> [] then JStr (strip (py_str B v)) else JNull))"

definition caught :: "error \<Rightarrow> bool" where
  \<comment> \<open>\<^verbatim>\<open>except (ValueError, TypeError)\<close>\<close>
  "caught e \<longleftrightarrow> e = ValueError \<or> e = TypeError"

definition normalize_int :: "builtins \<Rightarrow> json \<Rightarrow> error + json" where
  "normalize_int B v =
     (case v of
        JNull \<Rightarrow> Inr JNull
      | JInt n \<Rightarrow> Inr (JInt n)
      | JBool b \<Rightarrow> Inr (JInt (if b then 1 else 0))
      | JFloat f \<Rightarrow>
          (case float_int B f of
             Inr n \<Rightarrow> Inr (JInt n)
           | Inl e \<Rightarrow> if caught e then Inr JNull else Inl e)
      | JStr s \<Rightarrow> (case int_of_str s of Some n \<Rightarrow> Inr (JInt n) | None \<Rightarrow> Inr JNull)
      | _ \<Rightarrow> Inr JNull)"

definition normalize_float :: "builtins \<Rightarrow> json \<Rightarrow> error + json" where
  "normalize_float B v =
     (case v of
        JNull \<Rightarrow> Inr JNull
      | _ \<Rightarrow>
          (case py_float B v of
             Inr f \<Rightarrow> Inr (JFloat f)
           | Inl e \<Rightarrow> if caught e then Inr JNull else Inl e))"

definition normalize_date :: "json \<Rightarrow> json" where
  \<comment> \<open>a parsed document holds no \<^verbatim>\<open>datetime\<close> object\<close>
  "normalize_date v =
     (case v of
        JStr s \<Rightarrow> (if strip s \<noteq> [] then JStr (strip s) else JNull)
      | _ \<Rightarrow> JNull)"

definition normalize_uuid :: "builtins \<Rightarrow> json \<Rightarrow> json" where
  "normalize_uuid B v =
     (case v of
        JStr s \<Rightarrow> (if is_uuid B s then JStr s else JNull)
      | _ \<Rightarrow> JNull)"

section \<open>The transformer (data_transformer_uuid.py)\<close>

text \<open>
  The attributes of a \<^verbatim>\<open>DataTransformer\<close>: nine tables (lists of records, a record being
  a dictionary), six identity maps in insertion order, and the schedule that
  \<^verbatim>\<open>transform_schedule\<close> saves to its file. \<^verbatim>\<open>uuid.uuid4()\<close> reads the randomness of
  the operating system: \<open>entropy\<close> is the sequence of tokens it will return and
  \<open>drawn\<close> counts the calls made so far.
\<close>

record transformer =
  conferences :: "json list"
  divisions :: "json list"
  venues :: "json list"
  teams :: "json list"
  seasons :: "json list"
  players :: "json list"
  player_statistics :: "json list"
  rankings :: "json list"
  coaches :: "json list"
  conference_id_map :: "(json \<times> json) list"
  division_id_map :: "((json \<times> json) \<times> json) list"
  venue_id_map :: "(json \<times> json) list"
  team_id_map :: "(json \<times> json) list"
  season_id_map :: "((json \<times> json) \<times> json) list"
  player_id_map :: "(json \<times> json) list"
  schedule_file :: "json list"
  entropy :: "nat \<Rightarrow> string"
  drawn :: nat

definition init :: "(nat \<Rightarrow> string) \<Rightarrow> transformer" where
  \<comment> \<open>\<^verbatim>\<open>__init__\<close>\<close>
  "init e = \<lparr>conferences = [], divisions = [], venues = [], teams = [], seasons = [],
     players = [], player_statistics = [], rankings = [], coaches = [],
     conference_id_map = [], division_id_map = [], venue_id_map = [], team_id_map = [],
     season_id_map = [], player_id_map = [], schedule_file = [], entropy = e, drawn = 0\<rparr>"

definition uuid4 :: "transformer \<Rightarrow> json \<times> transformer" where
  \<comment> \<open>\<^verbatim>\<open>str(uuid.uuid4())\<close>\<close>
  "uuid4 s = (JStr (entropy s (drawn s)), s\<lparr>drawn := Suc (drawn s)\<rparr>)"

definition api_or_uuid4 :: "builtins \<Rightarrow> json \<Rightarrow> transformer \<Rightarrow> json \<times> transformer" where
  \<comment> \<open>use the API UUID if available, otherwise generate one\<close>
  "api_or_uuid4 B api_id s = (if truthy B api_id then (api_id, s) else uuid4 s)"

definition has_id :: "string \<Rightarrow> json \<Rightarrow> json list \<Rightarrow> bool" where
  \<comment> \<open>\<^verbatim>\<open>any(r[k] == v for r in table)\<close>\<close>
  "has_id k v table = list_ex (\<lambda>r. get_item r k = v) table"

definition extract_venue :: "builtins \<Rightarrow> json \<Rightarrow> transformer \<Rightarrow> error + transformer" where
  \<comment> \<open>\<^verbatim>\<open>_extract_venue\<close>; no caller uses the identifier it returns\<close>
  "extract_venue B venue s =
     (if \<not> truthy B venue then Inr s
      else
        let venue_api_id = normalize_uuid B (safe_get venue [''id''] JNull);
            venue_name = normalize_string B (safe_get venue [''name''] JNull)
        in
          if truthy B venue_api_id then
            (if map_of (venue_id_map s) venue_api_id = None then
               let s1 = s\<lparr>venue_id_map := AList.update venue_api_id venue_api_id (venue_id_map s)\<rparr>;
                   location = safe_get venue [''location''] (JDict [])
               in
                 ebind (normalize_float B (safe_get location [''lat''] JNull)) (\<lambda>lat.
                 ebind (normalize_float B (safe_get location [''lng''] JNull)) (\<lambda>lng.
                 ebind (mk_record
                   [(''venue_id'', Inr venue_api_id),
                    (''name'', Inr venue_name),
                    (''city'', Inr (normalize_string B (safe_get venue [''city''] JNull))),
                    (''state'', Inr (normalize_string B (safe_get venue [''state''] JNull))),
                    (''country'', Inr (normalize_string B (safe_get venue [''country''] (JStr ''USA'')))),
                    (''zip'', Inr (normalize_string B (safe_get venue [''zip''] JNull))),
                    (''address'', Inr (normalize_string B (safe_get venue [''address''] JNull))),
                    (''capacity'', normalize_int B (safe_get venue [''capacity''] JNull)),
                    (''surface'', Inr (normalize_string B (safe_get venue [''surface''] JNull))),
                    (''roof_type'', Inr (normalize_string B (safe_get venue [''roof_type''] JNull))),
                    (''latitude'', Inr lat),
                    (''longitude'', Inr lng)]) (\<lambda>r.
                 Inr (s1\<lparr>venues := venues s1 @ [r]\<rparr>))))
             else Inr s)
          else Inr s)"

definition venue_of_team :: "builtins \<Rightarrow> json \<Rightarrow> transformer \<Rightarrow> error + transformer" where
  \<comment> \<open>the loop body shared by \<^verbatim>\<open>transform_hierarchy\<close> and \<^verbatim>\<open>transform_venues\<close>\<close>
  "venue_of_team B team s =
     (let venue = safe_get team [''venue''] JNull in
      if truthy B venue then extract_venue B venue s else Inr s)"

definition hierarchy_register ::
  "json \<Rightarrow> json \<Rightarrow> json \<Rightarrow> json \<Rightarrow> json \<Rightarrow> json \<Rightarrow> transformer \<Rightarrow> transformer" where
  \<comment> \<open>the conference and the division that one conference of the hierarchy leaves behind\<close>
  "hierarchy_register div_name div_alias div_uuid conf_name conf_alias conf_uuid s1 =
     (let s2 = s1\<lparr>conference_id_map := AList.update conf_name conf_uuid (conference_id_map s1)\<rparr>;
          s3 = (if \<not> has_id ''conference_id'' conf_uuid (conferences s2)
                then s2\<lparr>conferences := conferences s2 @
                  [JDict [(''conference_id'', conf_uuid), (''name'', conf_name),
                          (''alias'', conf_alias)]]\<rparr>
                else s2);
          s4 = s3\<lparr>division_id_map :=
                  AList.update (conf_uuid, div_name) div_uuid (division_id_map s3)\<rparr>
      in if \<not> has_id ''division_id'' div_uuid (divisions s4)
         then s4\<lparr>divisions := divisions s4 @
                [JDict [(''division_id'', div_uuid), (''name'', div_name),
                        (''alias'', div_alias), (''conference_id'', conf_uuid)]]\<rparr>
         else s4)"

definition hierarchy_conference ::
  "builtins \<Rightarrow> json \<Rightarrow> json \<Rightarrow> json \<Rightarrow> json \<Rightarrow> transformer \<Rightarrow> error + transformer" where
  "hierarchy_conference B div_name div_alias div_uuid conf s =
     (let conf_name = normalize_string B (safe_get conf [''name''] JNull);
          conf_alias = normalize_string B (safe_get conf [''alias''] JNull);
          conf_api_id = normalize_uuid B (safe_get conf [''id''] JNull)
      in
        if truthy B conf_name then
          let (conf_uuid, s1) = api_or_uuid4 B conf_api_id s;
              s5 = hierarchy_register div_name div_alias div_uuid conf_name conf_alias conf_uuid s1
          in ebind (py_iter (safe_get conf [''teams''] (JList [])))
               (\<lambda>teams_list. for_each (venue_of_team B) teams_list s5)
        else Inr s)"

definition hierarchy_division :: "builtins \<Rightarrow> json \<Rightarrow> transformer \<Rightarrow> error + transformer" where
  "hierarchy_division B dv s =
     (let div_name = normalize_string B (safe_get dv [''name''] JNull);
          div_alias = normalize_string B (safe_get dv [''alias''] JNull);
          div_api_id = normalize_uuid B (safe_get dv [''id''] JNull)
      in
        if truthy B div_name then
          let (div_uuid, s1) = api_or_uuid4 B div_api_id s
          in ebind (py_iter (safe_get dv [''conferences''] (JList [])))
               (\<lambda>conferences_list.
                  for_each (hierarchy_conference B div_name div_alias div_uuid) conferences_list s1)
        else Inr s)"

definition transform_hierarchy :: "builtins \<Rightarrow> json \<Rightarrow> transformer \<Rightarrow> error + transformer" where
  "transform_hierarchy B hierarchy_data s =
     (if \<not> truthy B hierarchy_data then Inr s
      else
        let divisions_list = safe_get hierarchy_data [''divisions''] (JList []) in
        if \<not> truthy B divisions_list then Inr s
        else ebind (py_iter divisions_list) (\<lambda>ds. for_each (hierarchy_division B) ds s))"

definition transform_venues :: "builtins \<Rightarrow> json \<Rightarrow> transformer \<Rightarrow> error + transformer" where
  "transform_venues B teams_data s =
     (if \<not> truthy B teams_data then Inr s
      else ebind (py_iter (safe_get teams_data [''teams''] (JList [])))
             (\<lambda>teams_list. for_each (venue_of_team B) teams_list s))"

definition find_division :: "json \<Rightarrow> json \<Rightarrow> ((json \<times> json) \<times> json) list \<Rightarrow> json" where
  \<comment> \<open>the search loop over \<^verbatim>\<open>division_id_map.items()\<close>, left at the first match\<close>
  "find_division conference_id division_name m =
     (case find (\<lambda>kv. fst (fst kv) = conference_id \<and> snd (fst kv) = division_name) m of
        Some kv \<Rightarrow> snd kv
      | None \<Rightarrow> JNull)"

definition team_step :: "builtins \<Rightarrow> json \<Rightarrow> transformer \<Rightarrow> error + transformer" where
  "team_step B team s =
     (let api_team_id = normalize_uuid B (safe_get team [''id''] JNull) in
      if \<not> truthy B api_team_id then Inr s
      else
        let s1 = s\<lparr>team_id_map := AList.update api_team_id api_team_id (team_id_map s)\<rparr>;
            conference_name = normalize_string B (safe_get team [''conference'', ''name''] JNull);
            division_name = normalize_string B (safe_get team [''division'', ''name''] JNull);
            conference_id = (if truthy B conference_name
                             then dict_get (conference_id_map s1) conference_name else JNull);
            division_id = (if truthy B conference_name \<and> truthy B division_name
                           then find_division conference_id division_name (division_id_map s1)
                           else JNull);
            venue = safe_get team [''venue''] JNull;
            venue_id = (if truthy B venue
                        then (let venue_api_id = normalize_uuid B (safe_get venue [''id''] JNull)
                              in if truthy B venue_api_id
                                 then dict_get (venue_id_map s1) venue_api_id else JNull)
                        else JNull)
        in
          ebind (mk_record
            [(''team_id'', Inr api_team_id),
             (''market'', Inr (normalize_string B (safe_get team [''market''] JNull))),
             (''name'', Inr (normalize_string B (safe_get team [''name''] JNull))),
             (''alias'', Inr (normalize_string B (safe_get team [''alias''] JNull))),
             (''founded'', normalize_int B (safe_get team [''founded''] JNull)),
             (''mascot'', Inr (normalize_string B (safe_get team [''mascot''] JNull))),
             (''fight_song'', Inr (normalize_string B (safe_get team [''fight_song''] JNull))),
             (''championships_won'', normalize_int B (safe_get team [''championships_won''] (JInt 0))),
             (''conference_id'', Inr conference_id),
             (''division_id'', Inr division_id),
             (''venue_id'', Inr venue_id)]) (\<lambda>r.
          Inr (s1\<lparr>teams := teams s1 @ [r]\<rparr>)))"

definition transform_teams :: "builtins \<Rightarrow> json \<Rightarrow> transformer \<Rightarrow> error + transformer" where
  "transform_teams B teams_data s =
     (if \<not> truthy B teams_data then Inr s
      else ebind (py_iter (safe_get teams_data [''teams''] (JList [])))
             (\<lambda>teams_list. for_each (team_step B) teams_list s))"

definition season_step :: "builtins \<Rightarrow> json \<Rightarrow> transformer \<Rightarrow> error + transformer" where
  "season_step B season s =
     ebind (normalize_int B (safe_get season [''year''] JNull)) (\<lambda>year.
       let type_code = normalize_string B (safe_get season [''type'', ''code''] JNull);
           season_api_id = normalize_uuid B (safe_get season [''id''] JNull)
       in
         if truthy B year \<and> truthy B type_code then
           (if map_of (season_id_map s) (year, type_code) = None then
              let (season_uuid, s1) = api_or_uuid4 B season_api_id s;
                  r = JDict
                    [(''season_id'', season_uuid),
                     (''year'', year),
                     (''start_date'', normalize_date (safe_get season [''start_date''] JNull)),
                     (''end_date'', normalize_date (safe_get season [''end_date''] JNull)),
                     (''status'', normalize_string B (safe_get season [''status''] JNull)),
                     (''type_code'', type_code)];
                  s2 = s1\<lparr>seasons := seasons s1 @ [r]\<rparr>
              in Inr (s2\<lparr>season_id_map :=
                       AList.update (year, type_code) season_uuid (season_id_map s2)\<rparr>)
            else Inr s)
         else Inr s)"

definition transform_seasons :: "builtins \<Rightarrow> json \<Rightarrow> transformer \<Rightarrow> error + transformer" where
  "transform_seasons B seasons_data s =
     (if \<not> truthy B seasons_data then Inr s
      else ebind (py_iter (safe_get seasons_data [''seasons''] (JList [])))
             (\<lambda>seasons_list. for_each (season_step B) seasons_list s))"

definition player_names :: "builtins \<Rightarrow> json \<Rightarrow> json \<times> json" where
  \<comment> \<open>the first and the last name of a roster player\<close>
  "player_names B player =
     (let last0 = py_or B (normalize_string B (safe_get player [''last_name''] JNull))
                    (normalize_string B (safe_get player [''name'', ''last''] JNull));
          first0 = py_or B (normalize_string B (safe_get player [''first_name''] JNull))
                    (normalize_string B (safe_get player [''name'', ''first''] JNull));
          (first1, last1) =
            (if \<not> truthy B last0 then
               (case normalize_string B (safe_get player [''name''] JNull) of
                  JStr full_name \<Rightarrow>
                    (let name_parts = split_ws (strip full_name) in
                     if length name_parts > 0 then
                       (if \<not> truthy B first0 \<and> length name_parts > 1
                        then JStr (join '' '' (butlast name_parts)) else first0,
                        JStr (last name_parts))
                     else (first0, last0))
                | JDict kvs \<Rightarrow>
                    (py_or B (normalize_string B (safe_get (JDict kvs) [''first''] JNull)) first0,
                     normalize_string B (safe_get (JDict kvs) [''last''] JNull))
                | _ \<Rightarrow> (first0, last0))
             else (first0, last0))
      in (first1, if \<not> truthy B last1 then JStr ''Unknown'' else last1))"

definition player_step :: "builtins \<Rightarrow> json \<Rightarrow> json \<Rightarrow> transformer \<Rightarrow> error + transformer" where
  "player_step B team_db_id player s =
     (let api_player_id = normalize_uuid B (safe_get player [''id''] JNull) in
      if \<not> truthy B api_player_id then Inr s
      else
        let (first_name, last_name) = player_names B player in
        if map_of (player_id_map s) api_player_id = None then
          let s1 = s\<lparr>player_id_map := AList.update api_player_id api_player_id (player_id_map s)\<rparr>;
              position0 = safe_get player [''position''] JNull;
              position1 = (if is_dict position0
                           then py_or B (safe_get position0 [''name''] JNull)
                                  (safe_get position0 [''abbr''] JNull)
                           else position0);
              position = normalize_string B position1
          in
            ebind (convert_height_to_inches (safe_get player [''height''] JNull)) (\<lambda>height.
            ebind (mk_record
              [(''player_id'', Inr api_player_id),
               (''first_name'', Inr first_name),
               (''last_name'', Inr last_name),
               (''abbr_name'', Inr (py_or B (normalize_string B (safe_get player [''abbr_name''] JNull))
                                     (normalize_string B (safe_get player [''name'', ''abbr''] JNull)))),
               (''birth_place'', Inr (normalize_string B (safe_get player [''birth_place''] JNull))),
               (''position'', Inr position),
               (''height'', Inr height),
               (''weight'', normalize_int B (safe_get player [''weight''] JNull)),
               (''status'', Inr (normalize_string B (safe_get player [''status''] JNull))),
               (''eligibility'', Inr (normalize_string B (safe_get player [''eligibility''] JNull))),
               (''team_id'', Inr team_db_id)]) (\<lambda>r.
            Inr (s1\<lparr>players := players s1 @ [r]\<rparr>)))
        else Inr s)"

definition roster_conference :: "builtins \<Rightarrow> json \<Rightarrow> transformer \<Rightarrow> transformer" where
  \<comment> \<open>the conference of a roster, if not already captured\<close>
  "roster_conference B conf_data s =
     (if truthy B conf_data then
        let conf_name = normalize_string B (safe_get conf_data [''name''] JNull);
            conf_api_id = normalize_uuid B (safe_get conf_data [''id''] JNull);
            conf_alias = normalize_string B (safe_get conf_data [''alias''] JNull)
        in
          if truthy B conf_name \<and> truthy B conf_api_id
             \<and> \<not> has_id ''conference_id'' conf_api_id (conferences s)
          then s\<lparr>conference_id_map := AList.update conf_name conf_api_id (conference_id_map s),
                 conferences := conferences s @
                   [JDict [(''conference_id'', conf_api_id), (''name'', conf_name),
                           (''alias'', conf_alias)]]\<rparr>
          else s
      else s)"

definition roster_division :: "builtins \<Rightarrow> json \<Rightarrow> json \<Rightarrow> transformer \<Rightarrow> transformer" where
  \<comment> \<open>the division of a roster, if not already captured\<close>
  "roster_division B div_data conf_data s =
     (if truthy B div_data \<and> truthy B conf_data then
        let div_name = normalize_string B (safe_get div_data [''name''] JNull);
            div_api_id = normalize_uuid B (safe_get div_data [''id''] JNull);
            div_alias = normalize_string B (safe_get div_data [''alias''] JNull);
            conf_api_id = normalize_uuid B (safe_get conf_data [''id''] JNull)
        in
          if truthy B div_name \<and> truthy B div_api_id
             \<and> \<not> has_id ''division_id'' div_api_id (divisions s)
          then s\<lparr>division_id_map :=
                   AList.update (conf_api_id, div_name) div_api_id (division_id_map s),
                 divisions := divisions s @
                   [JDict [(''division_id'', div_api_id), (''name'', div_name),
                           (''alias'', div_alias), (''conference_id'', conf_api_id)]]\<rparr>
          else s
      else s)"

definition roster_players ::
  "builtins \<Rightarrow> string \<times> json \<Rightarrow> transformer \<Rightarrow> error + transformer" where
  "roster_players B entry s =
     (let team_api_id = JStr (fst entry);
          roster_data = snd entry;
          venue = safe_get roster_data [''venue''] JNull
      in
        ebind (if truthy B venue then extract_venue B venue s else Inr s) (\<lambda>s1.
          let conf_data = safe_get roster_data [''conference''] JNull;
              s2 = roster_conference B conf_data s1;
              div_data = safe_get roster_data [''division''] JNull;
              s3 = roster_division B div_data conf_data s2;
              team_db_id = dict_get (team_id_map s3) team_api_id
          in
            if \<not> truthy B team_db_id then Inr s3
            else ebind (py_iter (safe_get roster_data [''players''] (JList [])))
                   (\<lambda>players_list. for_each (player_step B team_db_id) players_list s3)))"

definition transform_players :: "builtins \<Rightarrow> json \<Rightarrow> transformer \<Rightarrow> error + transformer" where
  "transform_players B rosters_data s =
     (if \<not> truthy B rosters_data then Inr s
      else ebind (py_items rosters_data) (\<lambda>entries. for_each (roster_players B) entries s))"

definition coach_name :: "builtins \<Rightarrow> json \<Rightarrow> json" where
  "coach_name B coach =
     (let full_name = normalize_string B (safe_get coach [''full_name''] JNull) in
      if \<not> truthy B full_name then
        (case (normalize_string B (safe_get coach [''first_name''] JNull),
               normalize_string B (safe_get coach [''last_name''] JNull)) of
           (JStr f, JStr l) \<Rightarrow> JStr (f @ '' '' @ l)
         | (_, JStr l) \<Rightarrow> JStr l
         | _ \<Rightarrow> full_name)
      else full_name)"

definition coach_step :: "builtins \<Rightarrow> json \<Rightarrow> json \<Rightarrow> transformer \<Rightarrow> error + transformer" where
  "coach_step B team_db_id coach s =
     (let coach_api_id = normalize_uuid B (safe_get coach [''id''] JNull);
          full_name = coach_name B coach
      in
        if truthy B full_name then
          let (coach_uuid, s1) = api_or_uuid4 B coach_api_id s
          in Inr (s1\<lparr>coaches := coaches s1 @
                   [JDict [(''coach_id'', coach_uuid), (''full_name'', full_name),
                           (''position'', normalize_string B (safe_get coach [''position''] JNull)),
                           (''team_id'', team_db_id)]]\<rparr>)
        else Inr s)"

definition roster_coaches ::
  "builtins \<Rightarrow> string \<times> json \<Rightarrow> transformer \<Rightarrow> error + transformer" where
  "roster_coaches B entry s =
     (let team_db_id = dict_get (team_id_map s) (JStr (fst entry)) in
      if \<not> truthy B team_db_id then Inr s
      else ebind (py_iter (safe_get (snd entry) [''coaches''] (JList [])))
             (\<lambda>coaches_list. for_each (coach_step B team_db_id) coaches_list s))"

definition transform_coaches :: "builtins \<Rightarrow> json \<Rightarrow> transformer \<Rightarrow> error + transformer" where
  "transform_coaches B rosters_data s =
     (if \<not> truthy B rosters_data then Inr s
      else ebind (py_items rosters_data) (\<lambda>entries. for_each (roster_coaches B) entries s))"

definition stat_step ::
  "builtins \<Rightarrow> json \<Rightarrow> json \<Rightarrow> json \<Rightarrow> int \<times> transformer \<Rightarrow> error + int \<times> transformer" where
  "stat_step B team_db_id season_db_id player_stat st =
     (let stat_id = fst st; s = snd st;
          api_player_id = normalize_uuid B (safe_get player_stat [''id''] JNull)
      in
        if \<not> truthy B api_player_id then Inr st
        else
          let player_db_id = dict_get (player_id_map s) api_player_id in
          if \<not> truthy B player_db_id then Inr st
          else
            let stats = safe_get player_stat [''statistics''] (JDict []) in
            ebind (mk_record
              [(''stat_id'', Inr (JInt stat_id)),
               (''player_id'', Inr player_db_id),
               (''team_id'', Inr team_db_id),
               (''season_id'', Inr season_db_id),
               (''games_played'', normalize_int B (safe_get stats [''games_played''] JNull)),
               (''games_started'', normalize_int B (safe_get stats [''games_started''] JNull)),
               (''rushing_yards'', normalize_int B (safe_get stats [''rushing'', ''yards''] JNull)),
               (''rushing_touchdowns'', normalize_int B (safe_get stats [''rushing'', ''touchdowns''] JNull)),
               (''receiving_yards'', normalize_int B (safe_get stats [''receiving'', ''yards''] JNull)),
               (''receiving_touchdowns'', normalize_int B (safe_get stats [''receiving'', ''touchdowns''] JNull)),
               (''kick_return_yards'', normalize_int B (safe_get stats [''kick_returns'', ''yards''] JNull)),
               (''fumbles'', normalize_int B (safe_get stats [''fumbles'', ''total''] JNull))]) (\<lambda>r.
            Inr (stat_id + 1, s\<lparr>player_statistics := player_statistics s @ [r]\<rparr>)))"

definition stats_team ::
  "builtins \<Rightarrow> json \<Rightarrow> string \<times> json \<Rightarrow> int \<times> transformer \<Rightarrow> error + int \<times> transformer" where
  "stats_team B season_db_id entry st =
     (let team_db_id = dict_get (team_id_map (snd st)) (JStr (fst entry)) in
      if \<not> truthy B team_db_id then Inr st
      else ebind (py_iter (safe_get (snd entry) [''players''] (JList [])))
             (\<lambda>players_stats. for_each (stat_step B team_db_id season_db_id) players_stats st))"

definition transform_player_statistics ::
  "builtins \<Rightarrow> json \<Rightarrow> int \<Rightarrow> string \<Rightarrow> transformer \<Rightarrow> error + transformer" where
  "transform_player_statistics B season_stats_data year season_type s =
     (if \<not> truthy B season_stats_data then Inr s
      else
        let season_db_id = dict_get (season_id_map s) (JInt year, JStr season_type) in
        if \<not> truthy B season_db_id then Inr s
        else ebind (py_items season_stats_data) (\<lambda>entries.
             ebind (for_each (stats_team B season_db_id) entries (1, s)) (\<lambda>st.
             Inr (snd st))))"

definition ranking_step ::
  "builtins \<Rightarrow> json \<Rightarrow> json \<Rightarrow> json \<Rightarrow> json \<Rightarrow> json \<Rightarrow> json \<Rightarrow> int \<times> transformer
     \<Rightarrow> error + int \<times> transformer" where
  "ranking_step B rankings_data poll_id poll_name season_db_id week rank_item st =
     (let ranking_id = fst st; s = snd st;
          team_api_id = normalize_uuid B (safe_get rank_item [''id''] JNull)
      in
        if \<not> truthy B team_api_id then Inr st
        else
          let team_db_id = dict_get (team_id_map s) team_api_id in
          if \<not> truthy B team_db_id then Inr st
          else
            ebind (mk_record
              [(''ranking_id'', Inr (JInt ranking_id)),
               (''poll_id'', Inr poll_id),
               (''poll_name'', Inr poll_name),
               (''season_id'', Inr season_db_id),
               (''week'', Inr (if truthy B week then week else JNull)),
               (''effective_time'', Inr (normalize_date (safe_get rankings_data [''effective_time''] JNull))),
               (''team_id'', Inr team_db_id),
               (''rank'', normalize_int B (safe_get rank_item [''rank''] JNull)),
               (''prev_rank'', normalize_int B (safe_get rank_item [''prev_rank''] JNull)),
               (''points'', normalize_int B (safe_get rank_item [''points''] JNull)),
               (''fp_votes'', normalize_int B (safe_get rank_item [''fp_votes''] JNull)),
               (''wins'', normalize_int B (safe_get rank_item [''wins''] JNull)),
               (''losses'', normalize_int B (safe_get rank_item [''losses''] JNull)),
               (''ties'', normalize_int B (safe_get rank_item [''ties''] JNull))]) (\<lambda>r.
            Inr (ranking_id + 1, s\<lparr>rankings := rankings s @ [r]\<rparr>)))"

definition transform_rankings ::
  "builtins \<Rightarrow> json \<Rightarrow> int \<Rightarrow> json \<Rightarrow> transformer \<Rightarrow> error + transformer" where
  \<comment> \<open>the argument \<^verbatim>\<open>rankings_type\<close> is not used by the body; \<open>week\<close> is \<^verbatim>\<open>None\<close> or a number\<close>
  "transform_rankings B rankings_data year week s =
     (if \<not> truthy B rankings_data then Inr s
      else
        let (poll_id, s1) = api_or_uuid4 B (normalize_uuid B (safe_get rankings_data [''poll'', ''id''] JNull)) s;
            poll_name = normalize_string B (safe_get rankings_data [''poll'', ''name''] JNull)
        in
          ebind (if week = JNull then normalize_int B (safe_get rankings_data [''week''] JNull)
                 else Inr week) (\<lambda>week1.
            let season_db_id = dict_get (season_id_map s1) (JInt year, JStr ''REG'');
                ranking_id = int (length (rankings s1)) + 1
            in
              ebind (py_iter (safe_get rankings_data [''rankings''] (JList []))) (\<lambda>rankings_list.
              ebind (for_each (ranking_step B rankings_data poll_id poll_name season_db_id week1)
                       rankings_list (ranking_id, s1)) (\<lambda>st.
              Inr (snd st)))))"

fun or_chain :: "builtins \<Rightarrow> json \<Rightarrow> string list \<Rightarrow> error + json \<Rightarrow> error + json" where
  \<comment> \<open>\<^verbatim>\<open>item.get(k1) or item.get(k2) or ... or last\<close>\<close>
  "or_chain B item [] lst = lst"
| "or_chain B item (k # ks) lst =
     ebind (py_get item k) (\<lambda>v. if truthy B v then Inr v else or_chain B item ks lst)"

definition schedule_step ::
  "builtins \<Rightarrow> json \<Rightarrow> int \<times> json list \<Rightarrow> error + int \<times> json list" where
  "schedule_step B item st =
     (let game_id = fst st; games = snd st in
      ebind (or_chain B item [''home'', ''home_team''] (Inr (JDict []))) (\<lambda>home.
      ebind (or_chain B item [''away'', ''away_team''] (Inr (JDict []))) (\<lambda>away.
      ebind (or_chain B item [''venue''] (Inr (JDict []))) (\<lambda>venue.
      ebind (or_chain B item [''scheduled'', ''date''] (py_get item ''start_time'')) (\<lambda>event_time.
        let home_api_id = (if is_dict home then normalize_uuid B (get_item home ''id'') else JNull);
            away_api_id = (if is_dict away then normalize_uuid B (get_item away ''id'') else JNull);
            venue_name = (if is_dict venue then normalize_string B (get_item venue ''name'') else JNull)
        in Inr (game_id + 1, games @
             [JDict [(''game_id'', JInt game_id),
                     (''home_team_api_id'', home_api_id),
                     (''away_team_api_id'', away_api_id),
                     (''scheduled'', event_time),
                     (''venue_name'', venue_name)]]))))))"

definition transform_schedule :: "builtins \<Rightarrow> json \<Rightarrow> transformer \<Rightarrow> error + transformer" where
  \<comment> \<open>the games are saved to the schedule file of the year; no table changes\<close>
  "transform_schedule B schedule_data s =
     (if \<not> truthy B schedule_data then Inr s
      else
        ebind (or_chain B schedule_data [''schedule'', ''games''] (Inr (JList []))) (\<lambda>schedule_list.
        ebind (py_iter schedule_list) (\<lambda>items.
        ebind (for_each (schedule_step B) items (1, [])) (\<lambda>st.
        Inr (s\<lparr>schedule_file := snd st\<rparr>)))))"

definition api_get :: "(string \<times> json) list \<Rightarrow> string \<Rightarrow> json" where
  \<comment> \<open>\<^verbatim>\<open>all_api_data.get(k)\<close>\<close>
  "api_get all_api_data k = (case map_of all_api_data k of Some v \<Rightarrow> v | None \<Rightarrow> JNull)"

definition stage ::
  "builtins \<Rightarrow> (string \<times> json) list \<Rightarrow> string \<Rightarrow> (json \<Rightarrow> transformer \<Rightarrow> error + transformer)
     \<Rightarrow> transformer \<Rightarrow> error + transformer" where
  \<comment> \<open>\<^verbatim>\<open>if all_api_data.get(k): f(all_api_data[k])\<close>\<close>
  "stage B all_api_data k f s =
     (if truthy B (api_get all_api_data k) then f (api_get all_api_data k) s else Inr s)"

definition run_stages ::
  "builtins \<Rightarrow> (string \<times> json) list \<Rightarrow> int \<Rightarrow> string \<Rightarrow> transformer \<Rightarrow> error + transformer" where
  \<comment> \<open>the stages of \<^verbatim>\<open>transform_all_data\<close>, in dependency order\<close>
  "run_stages B all_api_data year season_type s =
     ebind (stage B all_api_data ''hierarchy'' (transform_hierarchy B) s) (\<lambda>s1.
     ebind (stage B all_api_data ''teams''
              (\<lambda>d t. ebind (transform_venues B d t) (transform_teams B d)) s1) (\<lambda>s2.
     ebind (stage B all_api_data ''seasons'' (transform_seasons B) s2) (\<lambda>s3.
     ebind (stage B all_api_data ''rosters''
              (\<lambda>d t. ebind (transform_players B d t) (transform_coaches B d)) s3) (\<lambda>s4.
     ebind (stage B all_api_data ''season_stats''
              (\<lambda>d. transform_player_statistics B d year season_type) s4) (\<lambda>s5.
     ebind (stage B all_api_data ''rankings_current''
              (\<lambda>d. transform_rankings B d year JNull) s5) (\<lambda>s6.
     ebind (stage B all_api_data ''rankings_week1''
              (\<lambda>d. transform_rankings B d year (JInt 1)) s6) (\<lambda>s7.
     stage B all_api_data ''season_schedule'' (transform_schedule B) s7)))))))"

definition transformed_data :: "transformer \<Rightarrow> (string \<times> json list) list" where
  \<comment> \<open>the dictionary of tables that \<^verbatim>\<open>transform_all_data\<close> returns\<close>
  "transformed_data s =
     [(''conferences'', conferences s), (''divisions'', divisions s), (''venues'', venues s),
      (''teams'', teams s), (''seasons'', seasons s), (''players'', players s),
      (''player_statistics'', player_statistics s), (''rankings'', rankings s),
      (''coaches'', coaches s)]"

definition transform_all_data ::
  "builtins \<Rightarrow> (string \<times> json) list \<Rightarrow> int \<Rightarrow> string \<Rightarrow> transformer
     \<Rightarrow> error + (string \<times> json list) list" where
  "transform_all_data B all_api_data year season_type s =
     ebind (run_stages B all_api_data year season_type s) (\<lambda>s'. Inr (transformed_data s'))"

section \<open>A concrete runtime for evaluation\<close>

text \<open>
  Closed examples are evaluated with the conversions below. \<open>canonical_uuid\<close> accepts
  the canonical form of 32 hexadecimal digits in groups of 8, 4, 4, 4 and 12, which
  \<^verbatim>\<open>uuid.UUID\<close> accepts too; the identifiers of every example are canonical or absent.
  No example holds a float or hands a value that is not a string to \<^verbatim>\<open>str\<close>, so the
  other conversions are never reached. \<open>sample_entropy\<close> is one possible sequence of
  results of \<^verbatim>\<open>uuid4\<close>.
\<close>

definition is_hex :: "char \<Rightarrow> bool" where
  "is_hex c \<longleftrightarrow> c \<in> set ''0123456789abcdefABCDEF''"

definition canonical_uuid :: "string \<Rightarrow> bool" where
  "canonical_uuid s =
     (case split_on CHR ''-'' s of
        [a, b, c, d, e] \<Rightarrow>
          length a = 8 \<and> length b = 4 \<and> length c = 4 \<and> length d = 4 \<and> length e = 12
          \<and> list_all is_hex (a @ b @ c @ d @ e)
      | _ \<Rightarrow> False)"

definition py0 :: builtins where
  "py0 = \<lparr>py_str = (\<lambda>v. ''?''), py_float = (\<lambda>v. Inl TypeError),
           float_int = (\<lambda>f. Inl ValueError), float_bool = (\<lambda>f. True),
           is_uuid = canonical_uuid\<rparr>"

definition sample_entropy :: "nat \<Rightarrow> string" where
  "sample_entropy n =
     (if n = 0 then ''a0a0a0a0-0000-4000-8000-000000000000''
      else if n = 1 then ''b1b1b1b1-1111-4111-8111-111111111111''
      else if n = 2 then ''c2c2c2c2-2222-4222-8222-222222222222''
      else ''d3d3d3d3-3333-4333-8333-333333333333'')"




text \<open>Sample identifiers and documents for the closed examples.\<close>

definition uuid_a :: string where "uuid_a = ''11111111-1111-1111-1111-111111111111''"
definition uuid_b :: string where "uuid_b = ''22222222-2222-2222-2222-222222222222''"
definition uuid_c :: string where "uuid_c = ''33333333-3333-3333-3333-333333333333''"
definition uuid_d :: string where "uuid_d = ''44444444-4444-4444-4444-444444444444''"

definition one_team :: transformer where
  "one_team = (init sample_entropy)\<lparr>team_id_map := [(JStr uuid_a, JStr uuid_a)]\<rparr>"


definition dangling_rosters :: "(string \<times> json) list" where
  "dangling_rosters =
     [(''rosters'', JDict [(uuid_c, JDict
        [(''conference'', JDict [(''id'', JStr uuid_a)]),
         (''division'', JDict [(''id'', JStr uuid_b), (''name'', JStr ''East'')])])])]"

definition repeated_conference :: json where
  "repeated_conference = JDict [(''divisions'', JList
     [JDict [(''name'', JStr ''FBS''), (''conferences'', JList [JDict [(''name'', JStr ''SEC'')]])],
      JDict [(''name'', JStr ''FCS''), (''conferences'', JList [JDict [(''name'', JStr ''SEC'')]])]])]"


text \<open>
  The game record that \<open>transform_schedule\<close> builds from the four values of a schedule
  item: the team references are the raw identifiers, kept when they have the shape of a
  UUID; no identity map is consulted.
\<close>

definition game_record :: "builtins \<Rightarrow> int \<Rightarrow> json \<Rightarrow> json \<Rightarrow> json \<Rightarrow> json \<Rightarrow> json" where
  "game_record B game_id home away venue event_time =
     JDict [(''game_id'', JInt game_id),
            (''home_team_api_id'', if is_dict home then normalize_uuid B (get_item home ''id'') else JNull),
            (''away_team_api_id'', if is_dict away then normalize_uuid B (get_item away ''id'') else JNull),
            (''scheduled'', event_time),
            (''venue_name'', if is_dict venue then normalize_string B (get_item venue ''name'') else JNull)]"


text \<open>
  The value that a schedule item carries for a field with several accepted names: the
  first non-empty value among them, in order. \<open>game_of\<close> is the game of an item in
  these terms, and \<open>number_games\<close> the games of a schedule list.
\<close>

fun carried :: "builtins \<Rightarrow> json \<Rightarrow> string list \<Rightarrow> json option" where
  "carried B item [] = None"
| "carried B item (k # ks) =
     (if truthy B (get_item item k) then Some (get_item item k) else carried B item ks)"

definition or_else :: "json option \<Rightarrow> json \<Rightarrow> json" where
  "or_else v d = (case v of Some x \<Rightarrow> x | None \<Rightarrow> d)"

definition game_of :: "builtins \<Rightarrow> int \<Rightarrow> json \<Rightarrow> json" where
  "game_of B n item =
     game_record B n
       (or_else (carried B item [''home'', ''home_team'']) (JDict []))
       (or_else (carried B item [''away'', ''away_team'']) (JDict []))
       (or_else (carried B item [''venue'']) (JDict []))
       (or_else (carried B item [''scheduled'', ''date'', ''start_time''])
          (get_item item ''start_time''))"


definition schedule_list :: "builtins \<Rightarrow> json \<Rightarrow> json" where
  "schedule_list B schedule_data =
     or_else (carried B schedule_data [''schedule'', ''games'']) (JList [])"




definition bo_jackson :: json where
  "bo_jackson = JDict [(''id'', JStr uuid_b), (''name'', JStr ''Bo Jackson'')]"

definition nameless :: json where
  "nameless = JDict [(''id'', JStr uuid_c)]"

text \<open>
  A second runtime for the closed examples: as \<open>py0\<close>, and \<^verbatim>\<open>str\<close> of the empty
  dictionary is \<^verbatim>\<open>'{}'\<close>, as in Python. The snapshot has one team and, in its roster, one
  player whose name is given as an object that holds nothing.
\<close>

definition str_of_empty :: "json \<Rightarrow> string" where
  "str_of_empty v = (if v = JDict [] then ''{}'' else ''?'')"

definition py1 :: builtins where
  "py1 = py0\<lparr>py_str := str_of_empty\<rparr>"

definition empty_name_snapshot :: "(string \<times> json) list" where
  "empty_name_snapshot =
     [(''teams'', JDict [(''teams'', JList [JDict [(''id'', JStr uuid_a)]])]),
      (''rosters'', JDict [(uuid_a, JDict [(''players'', JList
         [JDict [(''id'', JStr uuid_b), (''name'', JDict [])]])])])]"



section \<open>Properties of the Field Accessor\<close>

lemma safe_get_present:
  "path_value d ks = Some v \<Longrightarrow> v \<noteq> JNull \<Longrightarrow> safe_get d ks dflt = v"
  by (induction d ks rule: path_value.induct) (auto split: option.splits)

text \<open>
  C8. Whenever a segment of the key path is absent, or the value reached at that point
  is not a mapping, \<open>safe_get\<close> returns the caller's default. The function is total:
  it has no failure result for any document and any key sequence.
\<close>

theorem safe_get_missing_default:
  "path_value d ks = None \<Longrightarrow> safe_get d ks dflt = dflt"
  by (induction d ks rule: path_value.induct) (auto split: option.splits)

theorem safe_get_missing_default_witness:
  "path_value (JDict [(''venue'', JStr ''x'')]) [''venue'', ''name''] = None
   \<and> safe_get (JDict [(''venue'', JStr ''x'')]) [''venue'', ''name''] (JInt 7) = JInt 7"
  using safe_get_missing_default
    [of "JDict [(''venue'', JStr ''x'')]" "[''venue'', ''name'']" "JInt 7"]
  by simp

text \<open>
  C10. When the whole key path exists and the value stored there is an explicit null,
  \<open>safe_get\<close> returns the caller's default, not the stored null.
\<close>

theorem safe_get_null_default:
  "path_value d ks = Some JNull \<Longrightarrow> safe_get d ks dflt = dflt"
  by (induction d ks rule: path_value.induct) (auto split: option.splits)

theorem safe_get_null_default_witness:
  "path_value (JDict [(''venue'', JDict [(''name'', JNull)])]) [''venue'', ''name''] = Some JNull
   \<and> safe_get (JDict [(''venue'', JDict [(''name'', JNull)])]) [''venue'', ''name''] (JStr ''d'')
       = JStr ''d''"
  using safe_get_null_default
    [of "JDict [(''venue'', JDict [(''name'', JNull)])]" "[''venue'', ''name'']" "JStr ''d''"]
  by simp

section \<open>Height coercion\<close>

lemmas string_eval = isdigit_def isdigit_char_def isdecimal_def strip_def isspace_def
  int_of_str_def int_literal_def isspace_int_def max_str_digits_def int_body_val_def digit_val_def
  split_on_def split_ws_def

lemmas height_eval = height_of_string_def height_of_parts_def height_quotes_def
  match_feet_inches_def

lemma convert_height_examples:
  "convert_height_to_inches (JStr ''75'') = Inr (JInt 75)"
  "convert_height_to_inches (JStr ''6-3'') = Inr (JInt 75)"
  "convert_height_to_inches (JStr [CHR ''6'', CHR 0x27, CHR ''3'', CHR 0x22]) = Inr (JInt 75)"
  "convert_height_to_inches (JInt 190) = Inr (JInt 190)"
  "convert_height_to_inches (JStr ''tall'') = Inr JNull"
  by (simp_all add: string_eval height_eval)

lemma convert_height_result:
  "convert_height_to_inches v = Inr r \<Longrightarrow> r = JNull \<or> is_int r"
  by (cases v)
     (auto simp: height_eval Let_def split: if_splits option.splits list.splits)

lemma convert_height_raise:
  "convert_height_to_inches v = Inl e \<Longrightarrow>
     e = ValueError \<and> (\<exists>s. v = JStr s \<and> isdigit (strip s) \<and> int_of_str (strip s) = None)"
  by (cases v)
     (auto simp: height_eval Let_def split: if_splits option.splits list.splits)

text \<open>
  C7. The five sample conversions hold (\<open>convert_height_examples\<close>), and each result
  that is returned is an integer or null (\<open>convert_height_result\<close>). The function is
  not total: \<^verbatim>\<open>str.isdigit\<close> accepts the superscript digits, which \<^verbatim>\<open>int\<close> rejects, and
  the branch for a string of digits has no handler. On the one-character string
  SUPERSCRIPT TWO (U+00B2) the call raises \<^verbatim>\<open>ValueError\<close>.
\<close>

theorem convert_height_superscript_raises:
  "convert_height_to_inches (JStr [CHR 0xB2]) = Inl ValueError"
  by (simp add: string_eval height_eval)

section \<open>Evaluation of the samples\<close>

lemma sample_uuids:
  "canonical_uuid uuid_a" "canonical_uuid uuid_b" "canonical_uuid uuid_c" "canonical_uuid uuid_d"
  by (simp_all add: uuid_a_def uuid_b_def uuid_c_def uuid_d_def canonical_uuid_def split_on_def is_hex_def)

lemma sample_uuids_distinct:
  "uuid_a \<noteq> uuid_b" "uuid_a \<noteq> uuid_c" "uuid_a \<noteq> uuid_d" "uuid_b \<noteq> uuid_a" "uuid_b \<noteq> uuid_c" "uuid_b \<noteq> uuid_d" "uuid_c \<noteq> uuid_a" "uuid_c \<noteq> uuid_b" "uuid_c \<noteq> uuid_d" "uuid_d \<noteq> uuid_a" "uuid_d \<noteq> uuid_b" "uuid_d \<noteq> uuid_c"
  "uuid_a \<noteq> []" "uuid_b \<noteq> []" "uuid_c \<noteq> []" "uuid_d \<noteq> []"
  by (simp_all add: uuid_a_def uuid_b_def uuid_c_def uuid_d_def)

lemma py0_simps: "is_uuid py0 = canonical_uuid" "py_str py0 = (\<lambda>v. ''?'')"
  "float_bool py0 = (\<lambda>f. True)"
  by (simp_all add: py0_def)

lemmas run_eval = py0_simps sample_uuids normalize_uuid_def normalize_string_def
  normalize_int_def normalize_date_def normalize_float_def caught_def ebind_def mk_record_def
  dict_get_def has_id_def py_or_def api_or_uuid4_def uuid4_def init_def Let_def

section \<open>Records and loops\<close>

lemma collect_field:
  "collect fs = Inr kvs \<Longrightarrow> map_of fs k = Some (Inr v) \<Longrightarrow> map_of kvs k = Some v"
  by (induction fs arbitrary: kvs rule: collect.induct) (auto split: sum.splits if_splits)

lemma mk_record_field:
  "mk_record fs = Inr r \<Longrightarrow> map_of fs k = Some (Inr v) \<Longrightarrow> get_item r k = v"
  by (auto simp: mk_record_def split: sum.splits dest: collect_field)


section \<open>Statistics and rankings without a season\<close>







section \<open>Closed runs of the pipeline\<close>

lemmas stage_eval = transform_all_data_def run_stages_def stage_def api_get_def transformed_data_def

text \<open>
  C1. The foreign keys of teams, players, coaches, statistics and rankings are read from
  the identity maps, and the division of the hierarchy is appended after its conference.
  The division that \<open>transform_players\<close> captures from a roster is different: its
  \<open>conference_id\<close> is the identifier of the roster's conference, while the conference
  itself is appended only when it also has a name. A roster whose conference has an
  identifier and no name leaves a division that points to a conference absent from the
  conference table.
\<close>

theorem roster_division_dangling:
  "transform_all_data py0 dangling_rosters 2025 ''REG'' (init sample_entropy) =
     Inr [(''conferences'', []),
          (''divisions'', [JDict [(''division_id'', JStr uuid_b), (''name'', JStr ''East''),
                                  (''alias'', JNull), (''conference_id'', JStr uuid_a)]]),
          (''venues'', []), (''teams'', []), (''seasons'', []), (''players'', []),
          (''player_statistics'', []), (''rankings'', []), (''coaches'', [])]"
  by (simp add: dangling_rosters_def stage_eval transform_players_def roster_players_def
        roster_conference_def roster_division_def transform_coaches_def roster_coaches_def
        run_eval sample_uuids_distinct string_eval)

text \<open>
  C3. Seasons, players and venues are guarded by their identity map. A conference is not:
  each occurrence of a conference without an external identifier draws a new
  \<^verbatim>\<open>uuid4\<close>, the test before the append compares that new identifier, and the name
  is mapped to the last one. The conference \<^verbatim>\<open>SEC\<close> under two divisions is resolved to
  two identities and recorded twice.
\<close>

theorem conference_resolved_twice:
  "map_sum id (\<lambda>s. (conferences s, conference_id_map s))
     (transform_hierarchy py0 repeated_conference (init sample_entropy)) =
   Inr ([JDict [(''conference_id'', JStr (sample_entropy 1)), (''name'', JStr ''SEC''), (''alias'', JNull)],
         JDict [(''conference_id'', JStr (sample_entropy 3)), (''name'', JStr ''SEC''), (''alias'', JNull)]],
        [(JStr ''SEC'', JStr (sample_entropy 3))])"
  by (simp add: repeated_conference_def transform_hierarchy_def hierarchy_division_def
        hierarchy_conference_def hierarchy_register_def venue_of_team_def run_eval string_eval sample_entropy_def)


section \<open>Schedule\<close>







lemma game_of_same_values:
  assumes "carried B i1 [''home'', ''home_team''] = carried B i2 [''home'', ''home_team'']"
      and "carried B i1 [''away'', ''away_team''] = carried B i2 [''away'', ''away_team'']"
      and "carried B i1 [''venue''] = carried B i2 [''venue'']"
      and "carried B i1 [''scheduled'', ''date'', ''start_time'']
             = carried B i2 [''scheduled'', ''date'', ''start_time'']"
      and "carried B i1 [''scheduled'', ''date'', ''start_time''] \<noteq> None
             \<or> get_item i1 ''start_time'' = get_item i2 ''start_time''"
  shows "game_of B n i1 = game_of B n i2"
  using assms(5) unfolding game_of_def
  by (simp only: assms(1,2,3,4)) (auto simp: or_else_def)










section \<open>Names of roster players\<close>

lemma split_ws_acc_spaces:
  "list_all isspace ws \<Longrightarrow> split_ws_acc cur ws = (if cur = [] then [] else [cur])"
  by (induction ws arbitrary: cur) auto

lemma split_ws_acc_trailing:
  "list_all isspace ws \<Longrightarrow> split_ws_acc cur (xs @ ws) = split_ws_acc cur xs"
  by (induction xs arbitrary: cur) (auto simp: split_ws_acc_spaces)

lemma split_ws_acc_leading:
  "split_ws_acc [] (dropWhile isspace s) = split_ws_acc [] s"
  by (induction s) auto

lemma rstrip_decomp:
  "rev (dropWhile P (rev xs)) @ rev (takeWhile P (rev xs)) = xs"
proof -
  have "rev (takeWhile P (rev xs) @ dropWhile P (rev xs)) = xs" by simp
  then show ?thesis by (simp only: rev_append)
qed

lemma split_ws_strip: "split_ws (strip s) = split_ws s"
proof -
  let ?t = "dropWhile isspace s"
  have sp: "list_all isspace (rev (takeWhile isspace (rev ?t)))"
    by (simp add: list_all_iff) (meson set_takeWhileD)
  have "split_ws_acc [] (rev (dropWhile isspace (rev ?t)))
      = split_ws_acc [] (rev (dropWhile isspace (rev ?t)) @ rev (takeWhile isspace (rev ?t)))"
    using split_ws_acc_trailing[OF sp] by simp
  also have "\<dots> = split_ws_acc [] ?t" by (simp only: rstrip_decomp)
  also have "\<dots> = split_ws_acc [] s" by (rule split_ws_acc_leading)
  finally show ?thesis by (simp add: split_ws_def strip_def)
qed

lemma split_ws_acc_nonempty_tokens:
  "t \<in> set (split_ws_acc cur s) \<Longrightarrow> t \<noteq> []"
  by (induction s arbitrary: cur) (auto split: if_splits)

lemma split_ws_acc_pending:
  "cur \<noteq> [] \<Longrightarrow> split_ws_acc cur s \<noteq> []"
  by (induction s arbitrary: cur) auto

lemma split_ws_acc_nonspace:
  "\<not> list_all isspace s \<Longrightarrow> split_ws_acc cur s \<noteq> []"
  by (induction s arbitrary: cur) (auto simp: split_ws_acc_pending)

lemma strip_empty_iff: "strip s = [] \<longleftrightarrow> split_ws s = []"
proof
  assume "strip s = []"
  then have "split_ws (strip s) = []" by (simp add: split_ws_def)
  then show "split_ws s = []" by (simp only: split_ws_strip)
next
  assume e: "split_ws s = []"
  show "strip s = []"
  proof (rule ccontr)
    assume ne: "strip s \<noteq> []"
    then have "dropWhile isspace (rev (dropWhile isspace s)) \<noteq> []" by (simp add: strip_def)
    then have "\<not> isspace (hd (dropWhile isspace (rev (dropWhile isspace s))))"
      by (rule hd_dropWhile)
    moreover have "hd (dropWhile isspace (rev (dropWhile isspace s))) \<in> set (strip s)"
      using ne by (simp add: strip_def)
    ultimately have "\<not> list_all isspace (strip s)" by (auto simp: list_all_iff)
    then have "split_ws (strip s) \<noteq> []" by (simp add: split_ws_def split_ws_acc_nonspace)
    with e show False by (simp add: split_ws_strip)
  qed
qed


lemma safe_get_under_string:
  "safe_get d [k] JNull = JStr nm \<Longrightarrow> safe_get d [k, k'] JNull = JNull"
  by (cases d) (auto split: option.splits if_splits)

lemma safe_get_under_null:
  "safe_get d [k] JNull = JNull \<Longrightarrow> safe_get d [k, k'] JNull = JNull"
  by (cases d) (auto split: option.splits if_splits)

lemma player_names_string:
  assumes "safe_get player [''last_name''] JNull = JNull"
      and "safe_get player [''first_name''] JNull = JNull"
      and "safe_get player [''name''] JNull = JStr nm"
      and "split_ws nm \<noteq> []"
  shows "player_names B player =
           (if length (split_ws nm) > 1 then JStr (join '' '' (butlast (split_ws nm))) else JNull,
            JStr (last (split_ws nm)))"
proof -
  have sub: "safe_get player [''name'', ''last''] JNull = JNull"
    "safe_get player [''name'', ''first''] JNull = JNull"
    using assms(3) by (simp_all only: safe_get_under_string)
  have ne: "strip nm \<noteq> []" using assms(4) by (simp add: strip_empty_iff)
  have tok: "last (split_ws nm) \<noteq> []"
    using assms(4) split_ws_acc_nonempty_tokens[of "last (split_ws nm)" "[]" nm]
    by (simp add: split_ws_def)
  show ?thesis
    unfolding player_names_def
    by (simp only: assms(1,2,3) sub) 
       (simp add: normalize_string_def py_or_def ne split_ws_strip Let_def tok assms(4))
qed

lemma player_names_none:
  assumes "safe_get player [''last_name''] JNull = JNull"
      and "safe_get player [''name''] JNull = JNull"
  shows "snd (player_names B player) = JStr ''Unknown''"
proof -
  have sub: "safe_get player [''name'', ''last''] JNull = JNull"
    using assms(2) by (simp only: safe_get_under_null)
  show ?thesis
    unfolding player_names_def
    by (simp only: assms sub) (simp add: normalize_string_def py_or_def Let_def split: prod.splits)
qed

lemma player_step_appends:
  assumes id: "truthy B (normalize_uuid B (safe_get player [''id''] JNull))"
      and new: "map_of (player_id_map s) (normalize_uuid B (safe_get player [''id''] JNull)) = None"
      and run: "player_step B team_db_id player s = Inr s'"
  shows "\<exists>r. players s' = players s @ [r]
           \<and> get_item r ''player_id'' = normalize_uuid B (safe_get player [''id''] JNull)
           \<and> get_item r ''first_name'' = fst (player_names B player)
           \<and> get_item r ''last_name'' = snd (player_names B player)
           \<and> get_item r ''team_id'' = team_db_id"
proof -
  from run id new obtain r fs where
    r: "mk_record fs = Inr r"
    and f: "map_of fs ''player_id'' = Some (Inr (normalize_uuid B (safe_get player [''id''] JNull)))"
       "map_of fs ''first_name'' = Some (Inr (fst (player_names B player)))"
       "map_of fs ''last_name'' = Some (Inr (snd (player_names B player)))"
       "map_of fs ''team_id'' = Some (Inr team_db_id)"
    and s': "players s' = players s @ [r]"
    by (auto simp: player_step_def Let_def ebind_def simp del: safe_get.simps
             split: sum.splits prod.splits)
  from f[THEN mk_record_field[OF r]] s' show ?thesis by simp
qed


text \<open>
  What the loop body of \<open>transform_players\<close> appends for a player with a valid external
  identifier that is seen for the first time. When there is no \<^verbatim>\<open>last_name\<close> and no
  \<^verbatim>\<open>first_name\<close> and the name is one string, the last whitespace-separated token is the
  last name and the tokens before it, joined by single spaces, are the first name. When
  there is no \<^verbatim>\<open>name\<close> field either, the last name is \<^verbatim>\<open>Unknown\<close>.
\<close>

lemma player_names_policy:
  assumes id: "truthy B (normalize_uuid B (safe_get player [''id''] JNull))"
      and new: "map_of (player_id_map s) (normalize_uuid B (safe_get player [''id''] JNull)) = None"
      and run: "player_step B team_db_id player s = Inr s'"
      and nolast: "safe_get player [''last_name''] JNull = JNull"
  shows "\<exists>r. players s' = players s @ [r]
           \<and> get_item r ''player_id'' = normalize_uuid B (safe_get player [''id''] JNull)
           \<and> (\<forall>nm. safe_get player [''first_name''] JNull = JNull
                    \<and> safe_get player [''name''] JNull = JStr nm \<and> split_ws nm \<noteq> []
                 \<longrightarrow> get_item r ''last_name'' = JStr (last (split_ws nm))
                   \<and> get_item r ''first_name'' =
                       (if length (split_ws nm) > 1
                        then JStr (join '' '' (butlast (split_ws nm))) else JNull))
           \<and> (safe_get player [''name''] JNull = JNull
                 \<longrightarrow> get_item r ''last_name'' = JStr ''Unknown'')"
proof -
  from player_step_appends[OF id new run] obtain r where
    r: "players s' = players s @ [r]"
       "get_item r ''player_id'' = normalize_uuid B (safe_get player [''id''] JNull)"
       "get_item r ''first_name'' = fst (player_names B player)"
       "get_item r ''last_name'' = snd (player_names B player)" by blast
  have "get_item r ''last_name'' = JStr (last (split_ws nm))
        \<and> get_item r ''first_name'' =
            (if length (split_ws nm) > 1 then JStr (join '' '' (butlast (split_ws nm))) else JNull)"
    if "safe_get player [''first_name''] JNull = JNull"
       "safe_get player [''name''] JNull = JStr nm" "split_ws nm \<noteq> []" for nm
    using player_names_string[OF nolast that, of B] r(3,4) by simp
  moreover have "get_item r ''last_name'' = JStr ''Unknown''"
    if "safe_get player [''name''] JNull = JNull"
    using player_names_none[OF nolast that, of B] r(4) by simp
  ultimately show ?thesis using r(1,2) by blast
qed

lemma player_names_policy_witness:
  "(\<exists>s' r. player_step py0 (JStr uuid_a) bo_jackson one_team = Inr s'
       \<and> players s' = [r] \<and> get_item r ''first_name'' = JStr ''Bo''
       \<and> get_item r ''last_name'' = JStr ''Jackson'')
   \<and> (\<exists>s' r. player_step py0 (JStr uuid_a) nameless one_team = Inr s'
       \<and> players s' = [r] \<and> get_item r ''last_name'' = JStr ''Unknown'')"
proof
  have tok: "split_ws ''Bo Jackson'' = [''Bo'', ''Jackson'']" by (simp add: string_eval)
  have id: "truthy py0 (normalize_uuid py0 (safe_get bo_jackson [''id''] JNull))"
    by (simp add: bo_jackson_def run_eval sample_uuids_distinct)
  have new: "map_of (player_id_map one_team) (normalize_uuid py0 (safe_get bo_jackson [''id''] JNull)) = None"
    by (simp add: bo_jackson_def one_team_def run_eval)
  have "\<exists>s'. player_step py0 (JStr uuid_a) bo_jackson one_team = Inr s'"
    by (simp add: player_step_def bo_jackson_def one_team_def run_eval split: prod.splits)
  then obtain s' where run: "player_step py0 (JStr uuid_a) bo_jackson one_team = Inr s'" ..
  have nolast: "safe_get bo_jackson [''last_name''] JNull = JNull" by (simp add: bo_jackson_def)
  have p: "players one_team = []" by (simp add: one_team_def init_def)
  from player_names_policy[OF id new run nolast] obtain r where
    "players s' = players one_team @ [r]"
    "\<forall>nm. safe_get bo_jackson [''first_name''] JNull = JNull
         \<and> safe_get bo_jackson [''name''] JNull = JStr nm \<and> split_ws nm \<noteq> []
       \<longrightarrow> get_item r ''last_name'' = JStr (last (split_ws nm))
         \<and> get_item r ''first_name'' =
             (if length (split_ws nm) > 1 then JStr (join '' '' (butlast (split_ws nm))) else JNull)"
    by blast
  then have "players s' = [r] \<and> get_item r ''first_name'' = JStr ''Bo''
       \<and> get_item r ''last_name'' = JStr ''Jackson''"
    using p tok by (simp add: bo_jackson_def)
  with run show "\<exists>s' r. player_step py0 (JStr uuid_a) bo_jackson one_team = Inr s'
       \<and> players s' = [r] \<and> get_item r ''first_name'' = JStr ''Bo''
       \<and> get_item r ''last_name'' = JStr ''Jackson''" by blast
next
  have id: "truthy py0 (normalize_uuid py0 (safe_get nameless [''id''] JNull))"
    by (simp add: nameless_def run_eval sample_uuids_distinct)
  have new: "map_of (player_id_map one_team) (normalize_uuid py0 (safe_get nameless [''id''] JNull)) = None"
    by (simp add: nameless_def one_team_def run_eval)
  have "\<exists>s'. player_step py0 (JStr uuid_a) nameless one_team = Inr s'"
    by (simp add: player_step_def nameless_def one_team_def run_eval split: prod.splits)
  then obtain s' where run: "player_step py0 (JStr uuid_a) nameless one_team = Inr s'" ..
  have nolast: "safe_get nameless [''last_name''] JNull = JNull" by (simp add: nameless_def)
  have p: "players one_team = []" by (simp add: one_team_def init_def)
  from player_names_policy[OF id new run nolast] obtain r where
    "players s' = players one_team @ [r]"
    "safe_get nameless [''name''] JNull = JNull \<longrightarrow> get_item r ''last_name'' = JStr ''Unknown''"
    by blast
  then have "players s' = [r] \<and> get_item r ''last_name'' = JStr ''Unknown''"
    using p by (simp add: nameless_def)
  with run show "\<exists>s' r. player_step py0 (JStr uuid_a) nameless one_team = Inr s'
       \<and> players s' = [r] \<and> get_item r ''last_name'' = JStr ''Unknown''" by blast
qed

lemma py1_simps: "is_uuid py1 = canonical_uuid" "py_str py1 = str_of_empty"
  "float_bool py1 = (\<lambda>f. True)"
  by (simp_all add: py1_def py0_def)

text \<open>
  C6. The split of a one-string name holds (\<open>player_names_policy\<close>, with the example
  \<^verbatim>\<open>Bo Jackson\<close> in its witness), and a player with no name field gets the placeholder.
  A name given as an object is an accepted shape too, and the code has a branch for it,
  but \<open>normalize_string\<close> has turned the object into text before the branch is
  reached, so the branch never runs. A player whose name object holds no name is
  appended with the text of the object as last name, here \<^verbatim>\<open>{}\<close>, not with the
  placeholder \<^verbatim>\<open>Unknown\<close>.
\<close>

theorem empty_name_not_unknown:
  "map_sum id (\<lambda>tables. map_of tables ''players'')
     (transform_all_data py1 empty_name_snapshot 2025 ''REG'' (init sample_entropy)) =
   Inr (Some [JDict [(''player_id'', JStr uuid_b), (''first_name'', JNull),
                     (''last_name'', JStr ''{}''), (''abbr_name'', JNull),
                     (''birth_place'', JNull), (''position'', JNull), (''height'', JNull),
                     (''weight'', JNull), (''status'', JNull), (''eligibility'', JNull),
                     (''team_id'', JStr uuid_a)]])"
  by (simp add: empty_name_snapshot_def stage_eval transform_venues_def venue_of_team_def
        transform_teams_def team_step_def find_division_def
        transform_players_def roster_players_def roster_conference_def roster_division_def
        player_step_def player_names_def
        transform_coaches_def roster_coaches_def
        py1_simps str_of_empty_def sample_uuids normalize_uuid_def normalize_string_def
        normalize_int_def normalize_date_def normalize_float_def caught_def ebind_def mk_record_def
        dict_get_def has_id_def py_or_def api_or_uuid4_def uuid4_def init_def Let_def
        sample_uuids_distinct string_eval)

section \<open>Determinism\<close>





















































end
